theory Spec2Isabelle
  imports Complex_Main "HOL-Library.AList"
begin

section \<open>JavaScript values\<close>

text \<open>
  The tool arguments, the request bodies and the remote response bodies are JSON values
  held in JavaScript variables typed \<open>any\<close>. \<open>JUndefined\<close> is the JavaScript
  \<open>undefined\<close>: what reading an absent property gives. A number is a finite double,
  kept as the rational it denotes (a JSON text never yields \<open>NaN\<close>). An object is the
  list of its own properties in insertion order; reading a key takes its first entry.
\<close>

datatype json =
    JUndefined
  | JNull
  | JBool bool
  | JNum rat
  | JStr string
  | JArr "json list"
  | JObj "(string \<times> json) list"

text \<open>\<open>!!v\<close>: the values JavaScript treats as true in \<open>if (v)\<close>, \<open>!v\<close>, \<open>a || b\<close>.\<close>

fun truthy :: "json \<Rightarrow> bool" where
  "truthy JUndefined = False"
| "truthy JNull = False"
| "truthy (JBool b) = b"
| "truthy (JNum n) = (n \<noteq> 0)"
| "truthy (JStr s) = (s \<noteq> [])"
| "truthy (JArr xs) = True"
| "truthy (JObj kvs) = True"

text \<open>\<open>a || b\<close>\<close>

definition or_else :: "json \<Rightarrow> json \<Rightarrow> json" where
  "or_else a b = (if truthy a then a else b)"

text \<open>
  Reading \<open>v.k\<close> raises a TypeError when \<open>v\<close> is \<open>undefined\<close> or \<open>null\<close>; \<open>nullish\<close>
  is that test, and the handlers below make it before they read a property.
\<close>

fun nullish :: "json \<Rightarrow> bool" where
  "nullish JUndefined = True"
| "nullish JNull = True"
| "nullish v = False"

text \<open>
  \<open>v.k\<close> for a \<open>v\<close> that is not nullish, for the property names the program reads: an own
  property of an object, \<open>length\<close> of an array or a string, and \<open>undefined\<close> otherwise
  (none of the names the program reads is inherited from a prototype).
\<close>

fun js_get :: "json \<Rightarrow> string \<Rightarrow> json" where
  "js_get (JObj kvs) k = (case map_of kvs k of Some v \<Rightarrow> v | None \<Rightarrow> JUndefined)"
| "js_get (JArr xs) k = (if k = ''length'' then JNum (of_nat (length xs)) else JUndefined)"
| "js_get (JStr s) k = (if k = ''length'' then JNum (of_nat (length s)) else JUndefined)"
| "js_get v k = JUndefined"

text \<open>
  Converting a value parsed from JSON to a primitive (in a template literal, in \<open>+\<close>,
  \<open>/\<close> and \<open>>\<close>) raises a TypeError exactly when it meets an object with an own property
  \<open>toString\<close>: no JSON value is callable, so the own property hides
  \<open>Object.prototype.toString\<close>, and \<open>valueOf\<close> gives back the object. An array is
  joined from its elements.
\<close>

fun throws_on_coercion :: "json \<Rightarrow> bool" where
  "throws_on_coercion (JObj kvs) = (''toString'' \<in> fst ` set kvs)"
| "throws_on_coercion (JArr xs) = (\<exists>x \<in> set xs. throws_on_coercion x)"
| "throws_on_coercion v = False"

section \<open>Errors, texts and tool results\<close>

text \<open>
  A text is kept as the list of its pieces. What the engine renders stays symbolic:
  \<open>ToString v\<close> is \<open>String(v)\<close> of a value that is not a string, \<open>Stringify v\<close> is
  \<open>JSON.stringify(v, null, 2)\<close>, \<open>ToFixedMB v\<close> is \<open>(v / 1024 / 1024).toFixed(2)\<close>, and
  \<open>TypeErrorMessage\<close> is the message of an engine TypeError. \<open>CheckMarkYes\<close> and
  \<open>CrossMarkNo\<close> are the two answers of the validation report, a check mark followed by
  \<open>Yes\<close> and a cross mark followed by \<open>No\<close>.
\<close>

datatype frag =
    Lit string
  | ToString json
  | Stringify json
  | ToFixedMB json
  | TypeErrorMessage
  | CheckMarkYes
  | CrossMarkNo

type_synonym js_text = "frag list"

record http_response =
  status :: nat
  statusText :: string
  data :: json

text \<open>
  What the code can raise: \<open>new Error(msg)\<close>, an engine TypeError, and the rejection of
  \<open>axios.post\<close>, which carries the response when the remote side answered outside 2xx
  and only a message when the request failed in transport.
\<close>

datatype js_error =
    Error string
  | TypeError
  | AxiosError "http_response option" string

record tool_result =
  content :: js_text
  isError :: bool

text \<open>\<open>`${v}`\<close> of a value that converts without raising.\<close>

definition interp :: "json \<Rightarrow> frag" where
  "interp v = (case v of JStr s \<Rightarrow> Lit s | _ \<Rightarrow> ToString v)"

text \<open>\<open>`${v}`\<close>\<close>

definition to_text :: "json \<Rightarrow> js_error + js_text" where
  "to_text v = (if throws_on_coercion v then Inl TypeError else Inr [interp v])"

text \<open>\<open>error.message\<close>\<close>

fun error_message :: "js_error \<Rightarrow> js_text" where
  "error_message (Error m) = [Lit m]"
| "error_message TypeError = [TypeErrorMessage]"
| "error_message (AxiosError r m) = [Lit m]"

text \<open>Sequencing of steps that can raise.\<close>

definition and_then :: "js_error + 'a \<Rightarrow> ('a \<Rightarrow> js_error + 'b) \<Rightarrow> js_error + 'b" where
  "and_then m f = (case m of Inl e \<Rightarrow> Inl e | Inr x \<Rightarrow> f x)"

section \<open>Config building, single-user variant (src/index.ts)\<close>

text \<open>\<open>if (args.k !== undefined) config.k = args.k\<close>\<close>

definition copy_if_defined :: "json \<Rightarrow> string \<Rightarrow> (string \<times> json) list \<Rightarrow> (string \<times> json) list" where
  "copy_if_defined args k config =
     (if js_get args k \<noteq> JUndefined then AList.update k (js_get args k) config else config)"

text \<open>\<open>if (args.k) config.k = args.k\<close>\<close>

definition copy_if_truthy :: "json \<Rightarrow> string \<Rightarrow> (string \<times> json) list \<Rightarrow> (string \<times> json) list" where
  "copy_if_truthy args k config =
     (if truthy (js_get args k) then AList.update k (js_get args k) config else config)"

text \<open>
  The local \<open>config\<close> of \<open>handleCreateImageConfig\<close>. Reading \<open>args.width\<close> raises when no
  arguments were sent (\<open>args\<close> is \<open>undefined\<close>).
\<close>

definition image_config :: "json \<Rightarrow> js_error + json" where
  "image_config args =
     (if nullish args then Inl TypeError
      else Inr (JObj
        (copy_if_defined args ''defaults''
        (copy_if_defined args ''quality''
        (copy_if_defined args ''format''
        (copy_if_defined args ''backgroundColor''
          [(''width'', or_else (js_get args ''width'') (JNum 1920)),
           (''height'', or_else (js_get args ''height'') (JNum 1080)),
           (''layers'', or_else (js_get args ''layers'') (JArr []))]))))))"

definition handleCreateImageConfig :: "json \<Rightarrow> js_error + tool_result" where
  "handleCreateImageConfig args =
     and_then (image_config args) (\<lambda>config.
       Inr \<lparr>content = [Stringify (JObj [(''type'', JStr ''image''), (''config'', config)])],
            isError = False\<rparr>)"

text \<open>
  \<open>v > 0\<close> for the value \<open>v\<close> of a \<open>length\<close> property. For a number, a boolean, \<open>null\<close> and
  \<open>undefined\<close> the comparison is written out. For a string, an array or an object the
  engine converts to a number first (parsing decimal text into a double); that outcome is
  the parameter \<open>num_gt0\<close>, and the TypeError of the conversion is as above.
\<close>

definition gt_zero :: "(json \<Rightarrow> bool) \<Rightarrow> json \<Rightarrow> js_error + bool" where
  "gt_zero num_gt0 v =
     (case v of
        JUndefined \<Rightarrow> Inr False
      | JNull \<Rightarrow> Inr False
      | JBool b \<Rightarrow> Inr b
      | JNum n \<Rightarrow> Inr (0 < n)
      | _ \<Rightarrow> if throws_on_coercion v then Inl TypeError else Inr (num_gt0 v))"

text \<open>\<open>v && v.length > 0\<close>\<close>

definition nonempty :: "(json \<Rightarrow> bool) \<Rightarrow> json \<Rightarrow> js_error + bool" where
  "nonempty num_gt0 v =
     (if truthy v then gt_zero num_gt0 (js_get v ''length'') else Inr False)"



text \<open>The local \<open>config\<close> of \<open>handleCreateVideoConfig\<close>.\<close>

definition video_config :: "(json \<Rightarrow> bool) \<Rightarrow> json \<Rightarrow> js_error + json" where
  "video_config num_gt0 args =
     (if nullish args then Inl TypeError
      else and_then (nonempty num_gt0 (js_get args ''audioTracks'')) (\<lambda>tracks.
        Inr (JObj
          (copy_if_truthy args ''defaults''
          (copy_if_truthy args ''audioNorm''
          ((if tracks then AList.update ''audioTracks'' (js_get args ''audioTracks'') else id)
          (copy_if_defined args ''clipsAudioVolume''
          (copy_if_defined args ''keepSourceAudio''
          (copy_if_defined args ''outputVolume''
          (copy_if_defined args ''loopAudio''
          (copy_if_truthy args ''audioFilePath''
          (copy_if_defined args ''fast''
            [(''width'', or_else (js_get args ''width'') (JNum 1280)),
             (''height'', or_else (js_get args ''height'') (JNum 720)),
             (''fps'', or_else (js_get args ''fps'') (JNum 25)),
             (''format'', or_else (js_get args ''format'') (JStr ''mp4'')),
             (''clips'', or_else (js_get args ''clips'') (JArr []))]))))))))))))"

definition handleCreateVideoConfig :: "(json \<Rightarrow> bool) \<Rightarrow> json \<Rightarrow> js_error + tool_result" where
  "handleCreateVideoConfig num_gt0 args =
     and_then (video_config num_gt0 args) (\<lambda>config.
       Inr \<lparr>content = [Stringify (JObj [(''type'', JStr ''video''), (''config'', config)])],
            isError = False\<rparr>)"

section \<open>Config building, HTTP variant\<close>

text \<open>Both handlers return the arguments as they came, serialised.\<close>

definition http_handleCreateImageConfig :: "json \<Rightarrow> js_error + tool_result" where
  "http_handleCreateImageConfig args = Inr \<lparr>content = [Stringify args], isError = False\<rparr>"

definition http_handleCreateVideoConfig :: "json \<Rightarrow> js_error + tool_result" where
  "http_handleCreateVideoConfig args = Inr \<lparr>content = [Stringify args], isError = False\<rparr>"

section \<open>The remote validation call\<close>

text \<open>
  The body and the credential header of \<open>POST /api/v1/jobs/validate\<close>, and what
  \<open>axios.post\<close> gives back: the body of a 2xx response, or a rejection.
\<close>

record request =
  req_type :: json
  req_config :: json
  req_key :: json

datatype outcome =
    Resolved json
  | Rejected "http_response option" string

text \<open>
  What a server instance finds around it: the process-wide \<open>config.apiKey\<close> (\<open>null\<close> when
  \<open>JSONCUT_API_KEY\<close> is not set), the two schema documents read at startup, the engine's
  \<open>JSON.parse\<close> (\<open>None\<close> when it raises a SyntaxError) and numeric conversion, and the
  remote endpoint behind \<open>axios.post\<close>.
\<close>

record env =
  apiKey :: "string option"
  imageSchema :: json
  videoSchema :: json
  JSON_parse :: "string \<Rightarrow> json option"
  num_gt0 :: "json \<Rightarrow> bool"
  post :: "request \<Rightarrow> outcome"

section \<open>Validation, single-user variant\<close>

text \<open>The message of the error \<open>getApiKey\<close> raises.\<close>

definition key_required :: string where
  "key_required =
     ''API key is required. Set JSONCUT_API_KEY environment variable or provide apiKey parameter.''"

definition getApiKey :: "string option \<Rightarrow> json \<Rightarrow> js_error + json" where
  "getApiKey fallback providedKey =
     (let key = or_else providedKey (case fallback of None \<Rightarrow> JNull | Some s \<Rightarrow> JStr s)
      in if \<not> truthy key then Inl (Error key_required) else Inr key)"

text \<open>\<open>let parsedConfig = config; if (typeof config === 'string') ...\<close>\<close>

definition parse_config :: "(string \<Rightarrow> json option) \<Rightarrow> json \<Rightarrow> js_error + json" where
  "parse_config parse config =
     (case config of
        JStr s \<Rightarrow> (case parse s of
                     None \<Rightarrow> Inl (Error ''Invalid config JSON string'')
                   | Some v \<Rightarrow> Inr v)
      | _ \<Rightarrow> Inr config)"

text \<open>The body of \<open>validation.errors.forEach((err, idx) => ...)\<close>, \<open>idx\<close> counting from 0.\<close>

fun format_errors :: "nat \<Rightarrow> json list \<Rightarrow> js_error + js_text" where
  "format_errors idx [] = Inr []"
| "format_errors idx (err # errs) =
     (if nullish err then Inl TypeError
      else
        and_then (to_text (js_get err ''message'')) (\<lambda>m.
        and_then (if truthy (js_get err ''field'')
                  then and_then (to_text (js_get err ''field''))
                         (\<lambda>f. Inr ([Lit '' (field: ''] @ f @ [Lit '')'']))
                  else Inr []) (\<lambda>fld.
        and_then (format_errors (Suc idx) errs) (\<lambda>rest.
          Inr ([Lit ''  '', ToString (JNum (of_nat idx + 1)), Lit ''. ''] @ m @ fld
               @ [Lit ''\<newline>''] @ rest)))))"

text \<open>The body of \<open>validation.detectedResources.forEach((res) => ...)\<close>.\<close>

fun format_resources :: "json list \<Rightarrow> js_error + js_text" where
  "format_resources [] = Inr []"
| "format_resources (res # rs) =
     (if nullish res then Inl TypeError
      else
        and_then (to_text (js_get res ''type'')) (\<lambda>t.
        and_then (to_text (js_get res ''url'')) (\<lambda>u.
        and_then (if truthy (js_get res ''size'')
                  then (if throws_on_coercion (js_get res ''size'') then Inl TypeError
                        else Inr [Lit '' ('', ToFixedMB (js_get res ''size''), Lit '' MB)''])
                  else Inr []) (\<lambda>sz.
        and_then (format_resources rs) (\<lambda>rest.
          Inr ([Lit ''  - ''] @ t @ [Lit '': ''] @ u @ sz @ [Lit ''\<newline>''] @ rest))))))"

text \<open>
  \<open>if (xs && xs.length > 0) { message += heading; xs.forEach(...) }\<close>: \<open>forEach\<close> is a
  function only on an array.
\<close>

definition list_section ::
  "(json \<Rightarrow> bool) \<Rightarrow> json \<Rightarrow> string \<Rightarrow> (json list \<Rightarrow> js_error + js_text) \<Rightarrow> js_error + js_text" where
  "list_section gt xs heading each =
     and_then (nonempty gt xs) (\<lambda>b.
       if \<not> b then Inr []
       else (case xs of
               JArr items \<Rightarrow> and_then (each items) (\<lambda>t. Inr (Lit heading # t))
             | _ \<Rightarrow> Inl TypeError))"

text \<open>
  From \<open>const result = response.data\<close> to the end of the \<open>try\<close> block: the response body
  becomes the validation report, or the \<open>Validation Error\<close> result when the body is not
  flagged a success.
\<close>

definition map_response :: "(json \<Rightarrow> bool) \<Rightarrow> json \<Rightarrow> js_error + tool_result" where
  "map_response gt result =
     (if nullish result then Inl TypeError
      else if truthy (js_get result ''success'') \<and> truthy (js_get result ''data'') then
        (let validation = js_get result ''data'' in
         and_then (if js_get validation ''estimatedTokens'' \<noteq> JUndefined
                   then and_then (to_text (js_get validation ''estimatedTokens''))
                          (\<lambda>t. Inr ([Lit ''- Estimated Tokens: ''] @ t @ [Lit ''\<newline>'']))
                   else Inr []) (\<lambda>tokens.
         and_then (list_section gt (js_get validation ''errors'')
                     ''\<newline>Errors:\<newline>'' (format_errors 0)) (\<lambda>errs.
         and_then (list_section gt (js_get validation ''detectedResources'')
                     ''\<newline>Detected Resources:\<newline>'' format_resources) (\<lambda>ress.
           Inr \<lparr>content =
                  [Lit ''Validation Result:\<newline>'', Lit ''- Valid: '',
                   (if truthy (js_get validation ''isValid'') then CheckMarkYes else CrossMarkNo),
                   Lit ''\<newline>''] @ tokens @ errs @ ress,
                isError = False\<rparr>))))
      else
        and_then (to_text (or_else (js_get result ''error'') (JStr ''Validation failed'')))
          (\<lambda>m. Inr \<lparr>content = Lit ''Validation Error: '' # m, isError = True\<rparr>))"

text \<open>The \<open>try\<close> block of \<open>handleValidateConfig\<close>, with the requests it sent.\<close>

definition validate_try :: "env \<Rightarrow> json \<Rightarrow> request list \<times> (js_error + tool_result)" where
  "validate_try env args =
     (if nullish args then ([], Inl TypeError)
      else if \<not> truthy (js_get args ''type'')
        then ([], Inl (Error ''Missing required parameter: type''))
      else if \<not> truthy (js_get args ''config'')
        then ([], Inl (Error ''Missing required parameter: config''))
      else
        (case parse_config (JSON_parse env) (js_get args ''config'') of
           Inl e \<Rightarrow> ([], Inl e)
         | Inr parsedConfig \<Rightarrow>
            (case getApiKey (apiKey env) (js_get args ''apiKey'') of
               Inl e \<Rightarrow> ([], Inl e)
             | Inr key \<Rightarrow>
                (let req = \<lparr>req_type = js_get args ''type'', req_config = parsedConfig,
                            req_key = key\<rparr>
                 in case post env req of
                      Rejected r m \<Rightarrow> ([req], Inl (AxiosError r m))
                    | Resolved result \<Rightarrow> ([req], map_response (num_gt0 env) result)))))"

text \<open>\<open>if (error.message) errorMessage = error.message\<close>, and the literal otherwise.\<close>

definition message_or :: "js_error \<Rightarrow> string \<Rightarrow> js_text" where
  "message_or error dflt =
     (case error of
        TypeError \<Rightarrow> [TypeErrorMessage]
      | Error m \<Rightarrow> [Lit (if m \<noteq> [] then m else dflt)]
      | AxiosError r m \<Rightarrow> [Lit (if m \<noteq> [] then m else dflt)])"

text \<open>
  The \<open>catch\<close> block of \<open>handleValidateConfig\<close>. It raises itself when the error response
  has a \<open>null\<close> body, or a message that does not convert to a string.
\<close>

definition validate_catch :: "js_error \<Rightarrow> js_error + tool_result" where
  "validate_catch error =
     and_then
       (case error of
          AxiosError (Some response) m \<Rightarrow>
            (let errorData = data response in
             if nullish errorData then Inl TypeError
             else
               and_then
                 (let v = or_else (js_get errorData ''error'') (js_get errorData ''message'')
                  in if truthy v then to_text v
                     else Inr [Lit ''API Error: '', ToString (JNum (of_nat (status response))),
                               Lit '' '', Lit (statusText response)])
                 (\<lambda>errorMessage.
                    Inr (errorMessage @
                         (if truthy (js_get errorData ''details'')
                          then [Lit ''\<newline>Details: '', Stringify (js_get errorData ''details'')]
                          else []))))
        | _ \<Rightarrow> Inr (message_or error ''Unknown error occurred''))
       (\<lambda>errorMessage. Inr \<lparr>content = Lit ''Validation Error: '' # errorMessage, isError = True\<rparr>)"

definition handleValidateConfig :: "env \<Rightarrow> json \<Rightarrow> request list \<times> (js_error + tool_result)" where
  "handleValidateConfig env args =
     (case validate_try env args of
        (sent, Inr r) \<Rightarrow> (sent, Inr r)
      | (sent, Inl e) \<Rightarrow> (sent, validate_catch e))"

section \<open>Tool dispatch, single-user variant\<close>

definition handleGetImageSchema :: "env \<Rightarrow> tool_result" where
  "handleGetImageSchema env = \<lparr>content = [Stringify (imageSchema env)], isError = False\<rparr>"

definition handleGetVideoSchema :: "env \<Rightarrow> tool_result" where
  "handleGetVideoSchema env = \<lparr>content = [Stringify (videoSchema env)], isError = False\<rparr>"

text \<open>The names of the tools the \<open>ListToolsRequestSchema\<close> handler lists.\<close>

definition tool_names :: "string set" where
  "tool_names =
     {''create_image_config'', ''create_video_config'', ''validate_config'',
      ''get_image_schema'', ''get_video_schema''}"

text \<open>The \<open>switch (name)\<close> inside the \<open>try\<close> of the \<open>CallToolRequestSchema\<close> handler.\<close>

definition dispatch :: "env \<Rightarrow> string \<Rightarrow> json \<Rightarrow> request list \<times> (js_error + tool_result)" where
  "dispatch env name args =
     (if name = ''create_image_config'' then ([], handleCreateImageConfig args)
      else if name = ''create_video_config'' then ([], handleCreateVideoConfig (num_gt0 env) args)
      else if name = ''validate_config'' then handleValidateConfig env args
      else if name = ''get_image_schema'' then ([], Inr (handleGetImageSchema env))
      else if name = ''get_video_schema'' then ([], Inr (handleGetVideoSchema env))
      else ([], Inl (Error (''Unknown tool: '' @ name))))"

text \<open>The result returned for a caught error.\<close>

definition error_result :: "js_error \<Rightarrow> tool_result" where
  "error_result error = \<lparr>content = Lit ''Error: '' # error_message error, isError = True\<rparr>"

text \<open>The \<open>CallToolRequestSchema\<close> handler: the \<open>switch\<close> and its \<open>catch\<close>.\<close>

definition callTool :: "env \<Rightarrow> string \<Rightarrow> json \<Rightarrow> request list \<times> tool_result" where
  "callTool env name args =
     (case dispatch env name args of
        (sent, Inr r) \<Rightarrow> (sent, r)
      | (sent, Inl e) \<Rightarrow> (sent, error_result e))"

section \<open>Validation and tool dispatch, HTTP variant\<close>

text \<open>\<open>this.apiKey\<close> is the key the server instance was constructed with.\<close>

definition http_key_required :: string where
  "http_key_required = ''API key is required. Provide X-API-Key header when connecting.''"

definition http_getApiKey :: "string \<Rightarrow> json \<Rightarrow> js_error + json" where
  "http_getApiKey this_apiKey providedKey =
     (let key = or_else providedKey (JStr this_apiKey)
      in if \<not> truthy key then Inl (Error http_key_required) else Inr key)"

definition http_validate_try :: "env \<Rightarrow> string \<Rightarrow> json \<Rightarrow> request list \<times> (js_error + tool_result)" where
  "http_validate_try env this_apiKey args =
     (if nullish args then ([], Inl TypeError)
      else
        (case http_getApiKey this_apiKey (js_get args ''apiKey'') of
           Inl e \<Rightarrow> ([], Inl e)
         | Inr key \<Rightarrow>
            (let req = \<lparr>req_type = js_get args ''type'', req_config = js_get args ''config'',
                        req_key = key\<rparr>
             in case post env req of
                  Rejected r m \<Rightarrow> ([req], Inl (AxiosError r m))
                | Resolved result \<Rightarrow>
                    ([req], Inr \<lparr>content = [Stringify result], isError = False\<rparr>))))"

text \<open>\<open>error.response?.data?.k\<close>\<close>

definition response_data_get :: "js_error \<Rightarrow> string \<Rightarrow> json" where
  "response_data_get error k =
     (case error of
        AxiosError (Some response) m \<Rightarrow>
          (if nullish (data response) then JUndefined else js_get (data response) k)
      | _ \<Rightarrow> JUndefined)"

definition http_validate_catch :: "js_error \<Rightarrow> js_error + tool_result" where
  "http_validate_catch error =
     and_then
       (if truthy (response_data_get error ''message'')
        then to_text (response_data_get error ''message'')
        else Inr (message_or error ''Validation failed''))
       (\<lambda>errorMessage.
          Inr \<lparr>content = [Lit ''Validation Error: ''] @ errorMessage @ [Lit ''\<newline>'']
                         @ (if truthy (response_data_get error ''errors'')
                            then [Stringify (response_data_get error ''errors'')] else []),
               isError = True\<rparr>)"

definition http_handleValidateConfig ::
  "env \<Rightarrow> string \<Rightarrow> json \<Rightarrow> request list \<times> (js_error + tool_result)" where
  "http_handleValidateConfig env this_apiKey args =
     (case http_validate_try env this_apiKey args of
        (sent, Inr r) \<Rightarrow> (sent, Inr r)
      | (sent, Inl e) \<Rightarrow> (sent, http_validate_catch e))"

definition http_dispatch ::
  "env \<Rightarrow> string \<Rightarrow> string \<Rightarrow> json \<Rightarrow> request list \<times> (js_error + tool_result)" where
  "http_dispatch env this_apiKey name args =
     (if name = ''create_image_config'' then ([], http_handleCreateImageConfig args)
      else if name = ''create_video_config'' then ([], http_handleCreateVideoConfig args)
      else if name = ''validate_config'' then http_handleValidateConfig env this_apiKey args
      else if name = ''get_image_schema'' then ([], Inr (handleGetImageSchema env))
      else if name = ''get_video_schema'' then ([], Inr (handleGetVideoSchema env))
      else ([], Inl (Error (''Unknown tool: '' @ name))))"

definition http_callTool :: "env \<Rightarrow> string \<Rightarrow> string \<Rightarrow> json \<Rightarrow> request list \<times> tool_result" where
  "http_callTool env this_apiKey name args =
     (case http_dispatch env this_apiKey name args of
        (sent, Inr r) \<Rightarrow> (sent, r)
      | (sent, Inl e) \<Rightarrow> (sent, error_result e))"

section \<open>Sessions of the HTTP variant\<close>

text \<open>
  The headers \<open>mcp-session-id\<close> and \<open>x-api-key\<close> (\<open>None\<close> when the request does not carry
  them) and the parsed body of an inbound request.
\<close>

record http_request =
  mcp_session_id :: "string option"
  x_api_key :: "string option"
  body :: json

text \<open>
  The map \<open>sessions\<close>. An entry holds a transport and the server instance made for the
  session; what the model keeps of the entry is the key that server was constructed with.
\<close>

type_synonym sessions = "string \<rightharpoonup> string"

text \<open>
  What the endpoint does with a request: it hands it to the transport of a session
  (named with the key of that session's server), or it answers itself with a JSON-RPC
  error or a plain text under an HTTP status.
\<close>

datatype reply =
    Handled string string
  | JsonRpcError nat int string
  | PlainError nat string

text \<open>A header read as a condition: \<open>undefined\<close> and the empty string are false.\<close>

definition present :: "string option \<Rightarrow> bool" where
  "present h = (case h of None \<Rightarrow> False | Some s \<Rightarrow> s \<noteq> [])"

definition isInitializeRequest :: "json \<Rightarrow> bool" where
  "isInitializeRequest b = (truthy b \<and> js_get b ''method'' = JStr ''initialize'')"

text \<open>
  \<open>app.post('/mcp')\<close>. \<open>uuid\<close> is what \<open>randomUUID()\<close> returns when the handler calls it.
  The calls into the SDK (\<open>server.connect\<close>, \<open>transport.handleRequest\<close>) are taken to
  return; what they answer is the transport's business and is not modelled.
\<close>

definition no_valid_session :: string where
  "no_valid_session =
     ''Bad Request: No valid session ID provided or not an initialize request''"

definition post_mcp :: "sessions \<Rightarrow> http_request \<Rightarrow> string \<Rightarrow> sessions \<times> reply" where
  "post_mcp ss req uuid =
     (if present (mcp_session_id req) \<and> ss (the (mcp_session_id req)) \<noteq> None
        then (ss, Handled (the (mcp_session_id req)) (the (ss (the (mcp_session_id req)))))
      else if \<not> isInitializeRequest (body req)
        then (ss, JsonRpcError 400 (- 32000) no_valid_session)
      else if \<not> present (x_api_key req)
        then (ss, JsonRpcError 401 (- 32000) ''Missing X-API-Key header'')
      else (ss(uuid \<mapsto> the (x_api_key req)), Handled uuid (the (x_api_key req))))"

text \<open>\<open>app.get('/mcp')\<close>\<close>

definition get_mcp :: "sessions \<Rightarrow> http_request \<Rightarrow> sessions \<times> reply" where
  "get_mcp ss req =
     (if \<not> present (mcp_session_id req) \<or> ss (the (mcp_session_id req)) = None
        then (ss, PlainError 400 ''Invalid or missing session ID'')
      else (ss, Handled (the (mcp_session_id req)) (the (ss (the (mcp_session_id req))))))"

text \<open>\<open>app.delete('/mcp')\<close>\<close>

definition delete_mcp :: "sessions \<Rightarrow> http_request \<Rightarrow> sessions \<times> reply" where
  "delete_mcp ss req =
     (if \<not> present (mcp_session_id req) \<or> ss (the (mcp_session_id req)) = None
        then (ss, PlainError 400 ''Invalid or missing session ID'')
      else (ss((the (mcp_session_id req)) := None),
            Handled (the (mcp_session_id req)) (the (ss (the (mcp_session_id req))))))"

text \<open>
  What reaches the process: the three requests, and the closing of a session's transport,
  whose \<open>onclose\<close> handler deletes the session.
\<close>

datatype event =
    POST http_request string
  | GET http_request
  | DELETE http_request
  | CLOSE string

fun step :: "sessions \<Rightarrow> event \<Rightarrow> sessions \<times> reply option" where
  "step ss (POST req uuid) = (case post_mcp ss req uuid of (ss', r) \<Rightarrow> (ss', Some r))"
| "step ss (GET req) = (case get_mcp ss req of (ss', r) \<Rightarrow> (ss', Some r))"
| "step ss (DELETE req) = (case delete_mcp ss req of (ss', r) \<Rightarrow> (ss', Some r))"
| "step ss (CLOSE sid) = (ss(sid := None), None)"

fun run :: "sessions \<Rightarrow> event list \<Rightarrow> sessions" where
  "run ss [] = ss"
| "run ss (e # es) = run (fst (step ss e)) es"

text \<open>The events that end session \<open>sid\<close> or store a new session under its identifier.\<close>

fun touches :: "string \<Rightarrow> event \<Rightarrow> bool" where
  "touches sid (POST req uuid) = (uuid = sid)"
| "touches sid (GET req) = False"
| "touches sid (DELETE req) = (mcp_session_id req = Some sid)"
| "touches sid (CLOSE sid') = (sid' = sid)"

section \<open>The payload of a successful validation\<close>

text \<open>
  The validation result the remote endpoint returns, as the data model describes it (a
  validity flag, an optional estimated cost, a list of messages each with an optional
  field path, a list of detected resources), under the property names
  \<open>handleValidateConfig\<close> reads. An optional part is absent when \<open>None\<close>.
\<close>

record validation_issue =
  issue_message :: string
  issue_field :: "string option"

record detected_resource =
  resource_type :: string
  resource_url :: string
  resource_size :: "rat option"

record validation =
  v_isValid :: bool
  v_estimatedTokens :: "rat option"
  v_errors :: "validation_issue list option"
  v_detectedResources :: "detected_resource list option"

definition optional :: "string \<Rightarrow> 'a option \<Rightarrow> ('a \<Rightarrow> json) \<Rightarrow> (string \<times> json) list" where
  "optional k x f = (case x of None \<Rightarrow> [] | Some v \<Rightarrow> [(k, f v)])"

definition encode_issue :: "validation_issue \<Rightarrow> json" where
  "encode_issue i =
     JObj ((''message'', JStr (issue_message i)) # optional ''field'' (issue_field i) JStr)"

definition encode_resource :: "detected_resource \<Rightarrow> json" where
  "encode_resource r =
     JObj ([(''type'', JStr (resource_type r)), (''url'', JStr (resource_url r))]
           @ optional ''size'' (resource_size r) JNum)"

definition encode_validation :: "validation \<Rightarrow> json" where
  "encode_validation v =
     JObj ([(''isValid'', JBool (v_isValid v))]
           @ optional ''estimatedTokens'' (v_estimatedTokens v) JNum
           @ optional ''errors'' (v_errors v) (\<lambda>is. JArr (map encode_issue is))
           @ optional ''detectedResources'' (v_detectedResources v)
               (\<lambda>rs. JArr (map encode_resource rs)))"

text \<open>The body of a 2xx response flagged a success.\<close>

definition success_body :: "validation \<Rightarrow> json" where
  "success_body v = JObj [(''success'', JBool True), (''data'', encode_validation v)]"

section \<open>An environment for the worked examples\<close>

text \<open>
  The closed examples below run in this environment: the fallback key is the argument,
  \<open>JSON.parse\<close> is given on the two texts the examples use (the empty string is not a JSON
  text, \<open>{}\<close> is the empty object), and the remote endpoint answers every request with
  the body \<open>{success: true, data: {isValid: true}}\<close>. The schema documents and the numeric
  conversion are not reached by any example.
\<close>

definition example_env :: "string option \<Rightarrow> env" where
  "example_env fallback =
     \<lparr>apiKey = fallback,
      imageSchema = JObj [],
      videoSchema = JObj [],
      JSON_parse = (\<lambda>s. if s = ''{}'' then Some (JObj []) else None),
      num_gt0 = (\<lambda>v. False),
      post = (\<lambda>r. Resolved (JObj [(''success'', JBool True),
                                   (''data'', JObj [(''isValid'', JBool True)])]))\<rparr>"

section \<open>Reading and writing properties\<close>

lemma js_get_Cons:
  "js_get (JObj ((k, v) # c)) k' = (if k' = k then v else js_get (JObj c) k')"
  by simp

lemma js_get_update:
  "js_get (JObj (AList.update k v c)) k' = (if k' = k then v else js_get (JObj c) k')"
  by (simp add: update_conv')

lemma js_get_copy_if_defined:
  "k' \<noteq> k \<Longrightarrow> js_get (JObj (copy_if_defined a k c)) k' = js_get (JObj c) k'"
  by (simp add: copy_if_defined_def js_get_update del: js_get.simps)

lemma js_get_copy_if_truthy:
  "k' \<noteq> k \<Longrightarrow> js_get (JObj (copy_if_truthy a k c)) k' = js_get (JObj c) k'"
  by (simp add: copy_if_truthy_def js_get_update del: js_get.simps)

lemma js_get_update_if:
  "k' \<noteq> k \<Longrightarrow> js_get (JObj ((if b then AList.update k v else id) c)) k' = js_get (JObj c) k'"
  by (simp add: js_get_update del: js_get.simps)





section \<open>The single-user builders write recognised fields only\<close>












section \<open>Claims about config building\<close>

text \<open>
  C2, as amended. In the single-user variant, a bundle that holds only the collection
  gives the defaults and the collection: width 1920, height 1080 and the layers for an
  image, with no \<open>backgroundColor\<close>, \<open>format\<close> or \<open>quality\<close>; width 1280, height 720, 25
  frames per second, format \<open>mp4\<close> and the clips for a video. In the HTTP variant the
  same bundle comes back as it was sent, without defaults.
\<close>

theorem build_from_collection_only:
  "handleCreateImageConfig (JObj [(''layers'', JArr ls)])
     = Inr \<lparr>content = [Stringify (JObj [(''type'', JStr ''image''),
                (''config'', JObj [(''width'', JNum 1920), (''height'', JNum 1080),
                                   (''layers'', JArr ls)])])],
            isError = False\<rparr>
   \<and> handleCreateVideoConfig gt (JObj [(''clips'', JArr cs)])
     = Inr \<lparr>content = [Stringify (JObj [(''type'', JStr ''video''),
                (''config'', JObj [(''width'', JNum 1280), (''height'', JNum 720),
                                   (''fps'', JNum 25), (''format'', JStr ''mp4''),
                                   (''clips'', JArr cs)])])],
            isError = False\<rparr>
   \<and> http_handleCreateImageConfig (JObj [(''layers'', JArr ls)])
     = Inr \<lparr>content = [Stringify (JObj [(''layers'', JArr ls)])], isError = False\<rparr>
   \<and> http_handleCreateVideoConfig (JObj [(''clips'', JArr cs)])
     = Inr \<lparr>content = [Stringify (JObj [(''clips'', JArr cs)])], isError = False\<rparr>"
  by (simp add: handleCreateImageConfig_def image_config_def handleCreateVideoConfig_def
        video_config_def nonempty_def and_then_def copy_if_defined_def copy_if_truthy_def
        or_else_def http_handleCreateImageConfig_def http_handleCreateVideoConfig_def)

text \<open>The scenario of the specification: one text layer, single-user variant.\<close>

theorem build_from_collection_only_witness:
  "handleCreateImageConfig
     (JObj [(''layers'', JArr [JObj [(''type'', JStr ''text''), (''text'', JStr ''Hi'')]])])
     = Inr \<lparr>content = [Stringify (JObj [(''type'', JStr ''image''),
                (''config'', JObj [(''width'', JNum 1920), (''height'', JNum 1080),
                   (''layers'',
                    JArr [JObj [(''type'', JStr ''text''), (''text'', JStr ''Hi'')]])])])],
            isError = False\<rparr>"
  using build_from_collection_only
          [of "[JObj [(''type'', JStr ''text''), (''text'', JStr ''Hi'')]]" "\<lambda>v. False" "[]"]
  by simp

text \<open>
  C2 as stated fails in the HTTP variant: the same scenario returns the bundle alone, and
  the object it returns has no \<open>width\<close>.
\<close>

theorem http_build_adds_no_defaults:
  "http_handleCreateImageConfig
     (JObj [(''layers'', JArr [JObj [(''type'', JStr ''text''), (''text'', JStr ''Hi'')]])])
     = Inr \<lparr>content = [Stringify
               (JObj [(''layers'',
                       JArr [JObj [(''type'', JStr ''text''), (''text'', JStr ''Hi'')]])])],
            isError = False\<rparr>
   \<and> js_get (JObj [(''layers'',
                    JArr [JObj [(''type'', JStr ''text''), (''text'', JStr ''Hi'')]])])
        ''width'' = JUndefined"
  by (simp add: http_handleCreateImageConfig_def)




text \<open>
  C9, as amended. In the single-user variant a falsy \<open>width\<close>, \<open>height\<close> or \<open>fps\<close> (the
  number 0, like an absent field) is replaced by the default in every configuration the
  builders return: 1920 and 1080 for an image, 1280, 720 and 25 for a video. The image
  builder returns a configuration for every bundle. The video builder returns one unless
  the \<open>length\<close> of \<open>audioTracks\<close> is a value that cannot be compared with 0; then it
  raises a TypeError and there is no configuration.
\<close>

theorem falsy_takes_default:
  assumes "\<not> nullish args"
  shows "(\<exists>c. image_config args = Inr c
            \<and> (\<not> truthy (js_get args ''width'') \<longrightarrow> js_get c ''width'' = JNum 1920)
            \<and> (\<not> truthy (js_get args ''height'') \<longrightarrow> js_get c ''height'' = JNum 1080))
       \<and> ((\<exists>c. video_config gt args = Inr c
            \<and> (\<not> truthy (js_get args ''width'') \<longrightarrow> js_get c ''width'' = JNum 1280)
            \<and> (\<not> truthy (js_get args ''height'') \<longrightarrow> js_get c ''height'' = JNum 720)
            \<and> (\<not> truthy (js_get args ''fps'') \<longrightarrow> js_get c ''fps'' = JNum 25))
          \<or> (video_config gt args = Inl TypeError
              \<and> throws_on_coercion (js_get (js_get args ''audioTracks'') ''length'')))"
proof (intro conjI)
  show "\<exists>c. image_config args = Inr c
            \<and> (\<not> truthy (js_get args ''width'') \<longrightarrow> js_get c ''width'' = JNum 1920)
            \<and> (\<not> truthy (js_get args ''height'') \<longrightarrow> js_get c ''height'' = JNum 1080)"
    using assms
    by (simp add: image_config_def js_get_copy_if_defined js_get_Cons or_else_def
          del: js_get.simps)
  show "(\<exists>c. video_config gt args = Inr c
            \<and> (\<not> truthy (js_get args ''width'') \<longrightarrow> js_get c ''width'' = JNum 1280)
            \<and> (\<not> truthy (js_get args ''height'') \<longrightarrow> js_get c ''height'' = JNum 720)
            \<and> (\<not> truthy (js_get args ''fps'') \<longrightarrow> js_get c ''fps'' = JNum 25))
          \<or> (video_config gt args = Inl TypeError
              \<and> throws_on_coercion (js_get (js_get args ''audioTracks'') ''length''))"
  proof (cases "nonempty gt (js_get args ''audioTracks'')")
    case (Inl e)
    then have "e = TypeError
        \<and> throws_on_coercion (js_get (js_get args ''audioTracks'') ''length'')"
      by (auto simp: nonempty_def gt_zero_def split: if_splits json.splits)
    with Inl assms show ?thesis
      by (simp add: video_config_def and_then_def)
  next
    case (Inr b)
    with assms show ?thesis
      by (simp add: video_config_def and_then_def js_get_copy_if_defined
            js_get_copy_if_truthy js_get_update_if js_get_Cons or_else_def
            del: js_get.simps)
  qed
qed

theorem falsy_takes_default_witness:
  "image_config (JObj [(''width'', JNum 0), (''height'', JNum 0), (''layers'', JArr [])])
     = Inr (JObj [(''width'', JNum 1920), (''height'', JNum 1080), (''layers'', JArr [])])
   \<and> video_config (\<lambda>v. False)
        (JObj [(''width'', JNum 0), (''fps'', JNum 0), (''clips'', JArr [])])
     = Inr (JObj [(''width'', JNum 1280), (''height'', JNum 720), (''fps'', JNum 25),
                  (''format'', JStr ''mp4''), (''clips'', JArr [])])"
  using falsy_takes_default
          [of "JObj [(''width'', JNum 0), (''height'', JNum 0), (''layers'', JArr [])]"
              "\<lambda>v. False"]
        falsy_takes_default
          [of "JObj [(''width'', JNum 0), (''fps'', JNum 0), (''clips'', JArr [])]"
              "\<lambda>v. False"]
  by (simp add: image_config_def video_config_def nonempty_def and_then_def
        copy_if_defined_def copy_if_truthy_def or_else_def)

text \<open>
  C9 as stated fails at a bundle with \<open>fps\<close> 0 whose \<open>audioTracks\<close> is an object with an
  uncomparable \<open>length\<close>: the video builder raises, and no configuration carries the
  default.
\<close>

theorem video_build_raises_on_uncomparable_length:
  "video_config (\<lambda>v. False)
     (JObj [(''fps'', JNum 0), (''clips'', JArr []),
            (''audioTracks'', JObj [(''length'', JObj [(''toString'', JNum 1)])])])
     = Inl TypeError
   \<and> handleCreateVideoConfig (\<lambda>v. False)
     (JObj [(''fps'', JNum 0), (''clips'', JArr []),
            (''audioTracks'', JObj [(''length'', JObj [(''toString'', JNum 1)])])])
     = Inl TypeError"
  by (simp add: handleCreateVideoConfig_def video_config_def nonempty_def gt_zero_def
        and_then_def)

section \<open>The validation handler, branch by branch\<close>

lemma key_required_nonempty: "key_required \<noteq> []"
  by (simp add: key_required_def)

lemma http_key_required_nonempty: "http_key_required \<noteq> []"
  by (simp add: http_key_required_def)

lemma getApiKey_none:
  "\<not> truthy k \<Longrightarrow> getApiKey None k = Inl (Error key_required)"
  by (simp add: getApiKey_def or_else_def)

lemma truthy_not_nullish: "truthy (js_get args k) \<Longrightarrow> \<not> nullish args"
  by (cases args) simp_all

lemma validate_catch_Error:
  "m \<noteq> [] \<Longrightarrow>
   validate_catch (Error m) = Inr \<lparr>content = [Lit ''Validation Error: '', Lit m], isError = True\<rparr>"
  by (simp add: validate_catch_def message_or_def and_then_def)

lemma validate_catch_TypeError:
  "validate_catch TypeError =
     Inr \<lparr>content = [Lit ''Validation Error: '', TypeErrorMessage], isError = True\<rparr>"
  by (simp add: validate_catch_def message_or_def and_then_def)

lemma handle_nullish:
  "nullish args \<Longrightarrow> handleValidateConfig env args =
     ([], Inr \<lparr>content = [Lit ''Validation Error: '', TypeErrorMessage], isError = True\<rparr>)"
  by (simp add: handleValidateConfig_def validate_try_def validate_catch_TypeError)

lemma handle_no_type:
  "\<not> nullish args \<Longrightarrow> \<not> truthy (js_get args ''type'') \<Longrightarrow>
   handleValidateConfig env args =
     ([], Inr \<lparr>content = [Lit ''Validation Error: '', Lit ''Missing required parameter: type''],
               isError = True\<rparr>)"
  by (simp add: handleValidateConfig_def validate_try_def validate_catch_Error)

lemma handle_no_config:
  "truthy (js_get args ''type'') \<Longrightarrow> \<not> truthy (js_get args ''config'') \<Longrightarrow>
   handleValidateConfig env args =
     ([], Inr \<lparr>content = [Lit ''Validation Error: '', Lit ''Missing required parameter: config''],
               isError = True\<rparr>)"
  by (frule truthy_not_nullish)
     (simp add: handleValidateConfig_def validate_try_def validate_catch_Error)

lemma handle_bad_config:
  "truthy (js_get args ''type'') \<Longrightarrow> truthy (js_get args ''config'') \<Longrightarrow>
   parse_config (JSON_parse env) (js_get args ''config'') = Inl e \<Longrightarrow>
   handleValidateConfig env args =
     ([], Inr \<lparr>content = [Lit ''Validation Error: '', Lit ''Invalid config JSON string''],
               isError = True\<rparr>)"
  by (frule truthy_not_nullish)
     (auto simp add: handleValidateConfig_def validate_try_def validate_catch_Error parse_config_def
        split: json.splits option.splits)

lemma handle_no_key:
  "truthy (js_get args ''type'') \<Longrightarrow> truthy (js_get args ''config'') \<Longrightarrow>
   parse_config (JSON_parse env) (js_get args ''config'') = Inr v \<Longrightarrow>
   getApiKey (apiKey env) (js_get args ''apiKey'') = Inl e \<Longrightarrow>
   handleValidateConfig env args =
     ([], Inr \<lparr>content = [Lit ''Validation Error: '', Lit key_required], isError = True\<rparr>)"
  by (frule truthy_not_nullish)
     (auto simp add: handleValidateConfig_def validate_try_def validate_catch_Error
        key_required_nonempty getApiKey_def Let_def split: if_splits)

lemma handle_sent:
  "truthy (js_get args ''type'') \<Longrightarrow> truthy (js_get args ''config'') \<Longrightarrow>
   parse_config (JSON_parse env) (js_get args ''config'') = Inr v \<Longrightarrow>
   getApiKey (apiKey env) (js_get args ''apiKey'') = Inr key \<Longrightarrow>
   fst (handleValidateConfig env args) =
     [\<lparr>req_type = js_get args ''type'', req_config = v, req_key = key\<rparr>]"
  by (frule truthy_not_nullish)
     (simp add: handleValidateConfig_def validate_try_def Let_def split: outcome.splits sum.splits)

lemma parse_config_Inr:
  "(\<forall>s. c = JStr s \<longrightarrow> p s \<noteq> None) \<Longrightarrow> \<exists>v. parse_config p c = Inr v"
  by (cases c) (auto simp: parse_config_def split: option.splits)


section \<open>Claims about validation in the single-user variant\<close>

text \<open>
  C1, as amended. When no \<open>apiKey\<close> argument is supplied (or a falsy one) and no fallback
  credential is configured, validate sends no request and returns a failure result. In
  the single-user variant the failure is the missing-key error (the AuthenticationError
  of the specification) when \<open>type\<close> and \<open>config\<close> are present and \<open>config\<close>, if it is a
  string, parses; the checks of the parameters come first and report their own error
  otherwise. In the HTTP variant the failure is the missing-key error whenever arguments
  were sent.
\<close>

theorem no_credential_no_request:
  assumes "apiKey env = None" and "\<not> truthy (js_get args ''apiKey'')"
  shows "fst (handleValidateConfig env args) = []
       \<and> (\<exists>t. snd (handleValidateConfig env args) = Inr \<lparr>content = t, isError = True\<rparr>)
       \<and> (truthy (js_get args ''type'') \<and> truthy (js_get args ''config'')
            \<and> (\<forall>s. js_get args ''config'' = JStr s \<longrightarrow> JSON_parse env s \<noteq> None)
          \<longrightarrow> snd (handleValidateConfig env args) =
                Inr \<lparr>content = [Lit ''Validation Error: '', Lit key_required], isError = True\<rparr>)
       \<and> fst (http_handleValidateConfig env [] args) = []
       \<and> (\<exists>t. snd (http_handleValidateConfig env [] args) = Inr \<lparr>content = t, isError = True\<rparr>)
       \<and> (\<not> nullish args
          \<longrightarrow> snd (http_handleValidateConfig env [] args) =
                Inr \<lparr>content = [Lit ''Validation Error: '', Lit http_key_required,
                                 Lit ''\<newline>''],
                     isError = True\<rparr>)"
proof -
  have k: "getApiKey (apiKey env) (js_get args ''apiKey'') = Inl (Error key_required)"
    using assms by (simp add: getApiKey_none)
  have a: "fst (handleValidateConfig env args) = []
       \<and> (\<exists>t. snd (handleValidateConfig env args) = Inr \<lparr>content = t, isError = True\<rparr>)"
  proof (cases "nullish args")
    case True
    then show ?thesis by (simp add: handle_nullish)
  next
    case nn: False
    show ?thesis
    proof (cases "truthy (js_get args ''type'')")
      case False
      with nn show ?thesis by (simp add: handle_no_type)
    next
      case t: True
      show ?thesis
      proof (cases "truthy (js_get args ''config'')")
        case False
        with t show ?thesis by (simp add: handle_no_config)
      next
        case c: True
        show ?thesis
        proof (cases "parse_config (JSON_parse env) (js_get args ''config'')")
          case (Inl e)
          with t c show ?thesis by (simp add: handle_bad_config)
        next
          case (Inr v)
          with t c k show ?thesis by (simp add: handle_no_key)
        qed
      qed
    qed
  qed
  have b: "snd (handleValidateConfig env args) =
                Inr \<lparr>content = [Lit ''Validation Error: '', Lit key_required], isError = True\<rparr>"
    if t: "truthy (js_get args ''type'')" and c: "truthy (js_get args ''config'')"
      and p: "\<forall>s. js_get args ''config'' = JStr s \<longrightarrow> JSON_parse env s \<noteq> None"
  proof -
    obtain v where v: "parse_config (JSON_parse env) (js_get args ''config'') = Inr v"
      using parse_config_Inr[OF p] by blast
    show ?thesis
      using t c v k by (simp add: handle_no_key)
  qed
  have h: "http_getApiKey [] (js_get args ''apiKey'') = Inl (Error http_key_required)"
    using assms(2) by (simp add: http_getApiKey_def or_else_def)
  have c: "http_handleValidateConfig env [] args =
      ([], Inr \<lparr>content =
                 (if nullish args
                  then [Lit ''Validation Error: '', TypeErrorMessage, Lit ''\<newline>'']
                  else [Lit ''Validation Error: '', Lit http_key_required, Lit ''\<newline>'']),
               isError = True\<rparr>)"
    by (simp add: http_handleValidateConfig_def http_validate_try_def h http_validate_catch_def
          response_data_get_def message_or_def and_then_def http_key_required_nonempty)
  show ?thesis using a b c by simp
qed



theorem no_credential_no_request_witness:
  "handleValidateConfig (example_env None) (JObj [(''type'', JStr ''image''), (''config'', JObj [])])
     = ([], Inr \<lparr>content = [Lit ''Validation Error: '', Lit key_required], isError = True\<rparr>)
   \<and> http_handleValidateConfig (example_env None) []
        (JObj [(''type'', JStr ''image''), (''config'', JObj [])])
     = ([], Inr \<lparr>content = [Lit ''Validation Error: '', Lit http_key_required, Lit ''\<newline>''],
               isError = True\<rparr>)"
  using no_credential_no_request
          [of "example_env None" "JObj [(''type'', JStr ''image''), (''config'', JObj [])]"]
  by (simp add: example_env_def prod_eq_iff)


text \<open>
  C1 as stated fails when \<open>type\<close> is missing: no key is available either, and the failure
  is the missing parameter, not the missing key.
\<close>

theorem missing_type_precedes_credential:
  "handleValidateConfig (example_env None) (JObj [(''config'', JObj [])])
     = ([], Inr \<lparr>content = [Lit ''Validation Error: '', Lit ''Missing required parameter: type''],
               isError = True\<rparr>)"
  by (simp add: handle_no_type)


text \<open>
  C10, as amended. In the single-user variant, with \<open>type\<close> present: a \<open>config\<close> that is
  a non-empty string and does not parse gives the failure result
  \<open>Invalid config JSON string\<close> and no request; a non-empty string that parses is sent as
  the parsed value, and an object is sent as it is, once a key is available. A missing
  (falsy) \<open>type\<close> or \<open>config\<close> always gives a failure result and no request: the result
  for the missing \<open>config\<close> when \<open>type\<close> is present (the empty string is a missing
  \<open>config\<close>), the result for the missing \<open>type\<close> when arguments were sent without it, and
  the message of the engine's TypeError when no arguments were sent at all.
\<close>

theorem config_object_or_string:
  "(truthy (js_get args ''type'') \<and> js_get args ''config'' = JStr s \<and> s \<noteq> [] \<longrightarrow>
      (JSON_parse env s = None \<longrightarrow>
         handleValidateConfig env args =
           ([], Inr \<lparr>content = [Lit ''Validation Error: '', Lit ''Invalid config JSON string''],
                     isError = True\<rparr>))
    \<and> (\<forall>v key. JSON_parse env s = Some v
           \<and> getApiKey (apiKey env) (js_get args ''apiKey'') = Inr key \<longrightarrow>
         fst (handleValidateConfig env args) =
           [\<lparr>req_type = js_get args ''type'', req_config = v, req_key = key\<rparr>]))
   \<and> (truthy (js_get args ''type'') \<and> js_get args ''config'' = JObj kvs \<longrightarrow>
        (\<forall>key. getApiKey (apiKey env) (js_get args ''apiKey'') = Inr key \<longrightarrow>
           fst (handleValidateConfig env args) =
             [\<lparr>req_type = js_get args ''type'', req_config = JObj kvs, req_key = key\<rparr>]))
   \<and> (\<not> truthy (js_get args ''type'') \<or> \<not> truthy (js_get args ''config'') \<longrightarrow>
        fst (handleValidateConfig env args) = []
        \<and> (\<exists>t. snd (handleValidateConfig env args) = Inr \<lparr>content = t, isError = True\<rparr>))
   \<and> (truthy (js_get args ''type'') \<and> \<not> truthy (js_get args ''config'') \<longrightarrow>
        handleValidateConfig env args =
          ([], Inr \<lparr>content = [Lit ''Validation Error: '',
                                 Lit ''Missing required parameter: config''],
                    isError = True\<rparr>))
   \<and> (\<not> nullish args \<and> \<not> truthy (js_get args ''type'') \<longrightarrow>
        handleValidateConfig env args =
          ([], Inr \<lparr>content = [Lit ''Validation Error: '',
                                 Lit ''Missing required parameter: type''],
                    isError = True\<rparr>))
   \<and> (nullish args \<longrightarrow>
        handleValidateConfig env args =
          ([], Inr \<lparr>content = [Lit ''Validation Error: '', TypeErrorMessage],
                    isError = True\<rparr>))"
proof (intro conjI impI allI)
  assume a: "truthy (js_get args ''type'') \<and> js_get args ''config'' = JStr s \<and> s \<noteq> []"
    and p: "JSON_parse env s = None"
  then have "parse_config (JSON_parse env) (js_get args ''config'')
               = Inl (Error ''Invalid config JSON string'')"
    by (simp add: parse_config_def)
  with a show "handleValidateConfig env args =
           ([], Inr \<lparr>content = [Lit ''Validation Error: '', Lit ''Invalid config JSON string''],
                     isError = True\<rparr>)"
    by (simp add: handle_bad_config)
next
  fix v key
  assume a: "truthy (js_get args ''type'') \<and> js_get args ''config'' = JStr s \<and> s \<noteq> []"
    and p: "JSON_parse env s = Some v
           \<and> getApiKey (apiKey env) (js_get args ''apiKey'') = Inr key"
  then have "parse_config (JSON_parse env) (js_get args ''config'') = Inr v"
    by (simp add: parse_config_def)
  with a p show "fst (handleValidateConfig env args) =
           [\<lparr>req_type = js_get args ''type'', req_config = v, req_key = key\<rparr>]"
    by (simp add: handle_sent)
next
  fix key
  assume a: "truthy (js_get args ''type'') \<and> js_get args ''config'' = JObj kvs"
    and p: "getApiKey (apiKey env) (js_get args ''apiKey'') = Inr key"
  then have "parse_config (JSON_parse env) (js_get args ''config'') = Inr (JObj kvs)"
    by (simp add: parse_config_def)
  with a p show "fst (handleValidateConfig env args) =
             [\<lparr>req_type = js_get args ''type'', req_config = JObj kvs, req_key = key\<rparr>]"
    by (simp add: handle_sent)
next
  assume m: "\<not> truthy (js_get args ''type'') \<or> \<not> truthy (js_get args ''config'')"
  have "fst (handleValidateConfig env args) = []
        \<and> (\<exists>t. snd (handleValidateConfig env args) = Inr \<lparr>content = t, isError = True\<rparr>)"
  proof (cases "nullish args")
    case True
    then show ?thesis by (simp add: handle_nullish)
  next
    case nn: False
    show ?thesis
    proof (cases "truthy (js_get args ''type'')")
      case False
      with nn show ?thesis by (simp add: handle_no_type)
    next
      case True
      with m show ?thesis by (simp add: handle_no_config)
    qed
  qed
  then show "fst (handleValidateConfig env args) = []"
    and "\<exists>t. snd (handleValidateConfig env args) = Inr \<lparr>content = t, isError = True\<rparr>"
    by simp_all
next
  assume "truthy (js_get args ''type'') \<and> \<not> truthy (js_get args ''config'')"
  then show "handleValidateConfig env args =
          ([], Inr \<lparr>content = [Lit ''Validation Error: '',
                                 Lit ''Missing required parameter: config''],
                    isError = True\<rparr>)"
    by (simp add: handle_no_config)
next
  assume "\<not> nullish args \<and> \<not> truthy (js_get args ''type'')"
  then show "handleValidateConfig env args =
          ([], Inr \<lparr>content = [Lit ''Validation Error: '',
                                 Lit ''Missing required parameter: type''],
                    isError = True\<rparr>)"
    by (simp add: handle_no_type)
next
  assume "nullish args"
  then show "handleValidateConfig env args =
          ([], Inr \<lparr>content = [Lit ''Validation Error: '', TypeErrorMessage],
                    isError = True\<rparr>)"
    by (simp add: handle_nullish)
qed

theorem config_object_or_string_witness:
  "fst (handleValidateConfig (example_env (Some ''k''))
          (JObj [(''type'', JStr ''image''), (''config'', JStr ''{}'')]))
     = [\<lparr>req_type = JStr ''image'', req_config = JObj [], req_key = JStr ''k''\<rparr>]
   \<and> handleValidateConfig (example_env (Some ''k''))
        (JObj [(''type'', JStr ''image''), (''config'', JStr ''{'')])
     = ([], Inr \<lparr>content = [Lit ''Validation Error: '', Lit ''Invalid config JSON string''],
               isError = True\<rparr>)
   \<and> fst (handleValidateConfig (example_env (Some ''k''))
          (JObj [(''type'', JStr ''image''), (''config'', JObj [(''layers'', JArr [])])]))
     = [\<lparr>req_type = JStr ''image'', req_config = JObj [(''layers'', JArr [])],
         req_key = JStr ''k''\<rparr>]
   \<and> handleValidateConfig (example_env (Some ''k''))
        (JObj [(''type'', JStr ''image''), (''config'', JNull)])
     = ([], Inr \<lparr>content = [Lit ''Validation Error: '',
                              Lit ''Missing required parameter: config''],
               isError = True\<rparr>)
   \<and> handleValidateConfig (example_env (Some ''k'')) (JObj [(''config'', JStr ''{}'')])
     = ([], Inr \<lparr>content = [Lit ''Validation Error: '',
                              Lit ''Missing required parameter: type''],
               isError = True\<rparr>)
   \<and> handleValidateConfig (example_env (Some ''k'')) JUndefined
     = ([], Inr \<lparr>content = [Lit ''Validation Error: '', TypeErrorMessage],
               isError = True\<rparr>)"
  using config_object_or_string
          [of JUndefined "[]" "example_env (Some ''k'')" "[]"]
        config_object_or_string
          [of "JObj [(''type'', JStr ''image''), (''config'', JNull)]" "[]"
              "example_env (Some ''k'')" "[]"]
        config_object_or_string
          [of "JObj [(''config'', JStr ''{}'')]" "[]" "example_env (Some ''k'')" "[]"]
        config_object_or_string
          [of "JObj [(''type'', JStr ''image''), (''config'', JStr ''{}'')]" "''{}''"
              "example_env (Some ''k'')" "[]"]
        config_object_or_string
          [of "JObj [(''type'', JStr ''image''), (''config'', JStr ''{'')]" "''{''"
              "example_env (Some ''k'')" "[]"]
        config_object_or_string
          [of "JObj [(''type'', JStr ''image''), (''config'', JObj [(''layers'', JArr [])])]" "[]"
              "example_env (Some ''k'')" "[(''layers'', JArr [])]"]
  by (simp add: example_env_def getApiKey_def or_else_def)

text \<open>
  C10 as stated fails at the empty string: it does not parse, and the failure reported
  is the missing parameter.
\<close>

theorem empty_config_string_reported_missing:
  "JSON_parse (example_env (Some ''k'')) [] = None
   \<and> handleValidateConfig (example_env (Some ''k''))
        (JObj [(''type'', JStr ''image''), (''config'', JStr [])])
     = ([], Inr \<lparr>content = [Lit ''Validation Error: '',
                              Lit ''Missing required parameter: config''],
               isError = True\<rparr>)"
  by (simp add: handle_no_config example_env_def)

section \<open>A successful response maps to a report\<close>

lemma and_then_Inr: "and_then (Inr x) f = f x"
  by (simp add: and_then_def)

lemma to_text_JStr: "to_text (JStr s) = Inr [Lit s]"
  by (simp add: to_text_def interp_def)

lemma to_text_JNum: "to_text (JNum n) = Inr [ToString (JNum n)]"
  by (simp add: to_text_def interp_def)

lemma nonempty_JArr: "nonempty gt (JArr xs) = Inr (xs \<noteq> [])"
  by (simp add: nonempty_def gt_zero_def)

lemma nonempty_JUndefined: "nonempty gt JUndefined = Inr False"
  by (simp add: nonempty_def)

lemma format_errors_step:
  "format_errors (Suc idx) rest = Inr t \<Longrightarrow> \<exists>t'. format_errors idx (encode_issue i # rest) = Inr t'"
  by (cases "issue_field i")
     (simp_all add: encode_issue_def optional_def and_then_def to_text_JStr)

lemma format_errors_encoded: "\<exists>t. format_errors idx (map encode_issue is) = Inr t"
proof (induction "is" arbitrary: idx)
  case Nil
  show ?case by simp
next
  case (Cons i "is")
  obtain t where "format_errors (Suc idx) (map encode_issue is) = Inr t"
    using Cons.IH by blast
  then show ?case
    using format_errors_step by (simp only: list.map)
qed

lemma format_resources_step:
  "format_resources rest = Inr t \<Longrightarrow> \<exists>t'. format_resources (encode_resource r # rest) = Inr t'"
  by (cases "resource_size r")
     (simp_all add: encode_resource_def optional_def and_then_def to_text_JStr)

lemma format_resources_encoded: "\<exists>t. format_resources (map encode_resource rs) = Inr t"
proof (induction rs)
  case Nil
  show ?case by simp
next
  case (Cons r rs)
  then obtain t where "format_resources (map encode_resource rs) = Inr t"
    by blast
  then show ?case
    using format_resources_step by (simp only: list.map)
qed

lemma list_section_absent: "list_section gt JUndefined heading each = Inr []"
  by (simp add: list_section_def nonempty_JUndefined and_then_def)

lemma list_section_array:
  "each items = Inr t \<Longrightarrow> \<exists>t'. list_section gt (JArr items) heading each = Inr t'"
  by (simp add: list_section_def nonempty_JArr and_then_def)

lemma get_isValid: "js_get (encode_validation v) ''isValid'' = JBool (v_isValid v)"
  by (simp add: encode_validation_def)

lemma get_estimatedTokens:
  "js_get (encode_validation v) ''estimatedTokens'' =
     (case v_estimatedTokens v of None \<Rightarrow> JUndefined | Some n \<Rightarrow> JNum n)"
  by (simp add: encode_validation_def optional_def split: option.splits)

lemma get_errors:
  "js_get (encode_validation v) ''errors'' =
     (case v_errors v of None \<Rightarrow> JUndefined | Some is \<Rightarrow> JArr (map encode_issue is))"
  by (simp add: encode_validation_def optional_def split: option.splits)

lemma get_detectedResources:
  "js_get (encode_validation v) ''detectedResources'' =
     (case v_detectedResources v of None \<Rightarrow> JUndefined
      | Some rs \<Rightarrow> JArr (map encode_resource rs))"
  by (simp add: encode_validation_def optional_def split: option.splits)

lemma tokens_encoded:
  "\<exists>t. (if js_get (encode_validation v) ''estimatedTokens'' \<noteq> JUndefined
         then and_then (to_text (js_get (encode_validation v) ''estimatedTokens''))
                (\<lambda>t. Inr ([Lit ''- Estimated Tokens: ''] @ t @ [Lit ''\<newline>'']))
         else Inr []) = Inr t"
  by (cases "v_estimatedTokens v")
     (simp_all add: get_estimatedTokens to_text_JNum and_then_def del: js_get.simps)

lemma errors_encoded:
  "\<exists>t. list_section gt (js_get (encode_validation v) ''errors'') heading (format_errors 0) = Inr t"
proof (cases "v_errors v")
  case None
  then show ?thesis by (simp add: get_errors list_section_absent del: js_get.simps)
next
  case (Some "is")
  obtain t where "format_errors 0 (map encode_issue is) = Inr t"
    using format_errors_encoded by blast
  from list_section_array[of "format_errors 0" _ t gt heading, OF this] Some show ?thesis
    by (simp add: get_errors del: js_get.simps)
qed

lemma resources_encoded:
  "\<exists>t. list_section gt (js_get (encode_validation v) ''detectedResources'') heading
          format_resources = Inr t"
proof (cases "v_detectedResources v")
  case None
  then show ?thesis by (simp add: get_detectedResources list_section_absent del: js_get.simps)
next
  case (Some rs)
  obtain t where "format_resources (map encode_resource rs) = Inr t"
    using format_resources_encoded by blast
  from list_section_array[of format_resources _ t gt heading, OF this] Some show ?thesis
    by (simp add: get_detectedResources del: js_get.simps)
qed


text \<open>
  C8. For every payload of a successful response, whichever of the estimated cost, the
  error list, the field paths and the detected resources are present, the mapping of the
  response body does not raise: it returns a result that is not flagged an error.
\<close>

theorem success_mapping_returns:
  "\<exists>t. map_response gt (success_body v) = Inr \<lparr>content = t, isError = False\<rparr>"
proof -
  obtain tok where tok: "(if js_get (encode_validation v) ''estimatedTokens'' \<noteq> JUndefined
         then and_then (to_text (js_get (encode_validation v) ''estimatedTokens''))
                (\<lambda>t. Inr ([Lit ''- Estimated Tokens: ''] @ t @ [Lit ''\<newline>'']))
         else Inr []) = Inr tok"
    using tokens_encoded by blast
  obtain errs where errs: "list_section gt (js_get (encode_validation v) ''errors'')
      ''\<newline>Errors:\<newline>'' (format_errors 0) = Inr errs"
    using errors_encoded by blast
  obtain ress where ress: "list_section gt (js_get (encode_validation v) ''detectedResources'')
      ''\<newline>Detected Resources:\<newline>'' format_resources = Inr ress"
    using resources_encoded by blast
  have d: "js_get (success_body v) ''data'' = encode_validation v"
    and s: "js_get (success_body v) ''success'' = JBool True"
    and n: "\<not> nullish (success_body v)"
    by (simp_all add: success_body_def)
  have t: "truthy (encode_validation v)"
    by (simp add: encode_validation_def)
  show ?thesis
    unfolding map_response_def
    by (simp only: n d s t tok errs ress and_then_Inr Let_def truthy.simps if_True if_False
          simp_thms) blast
qed

theorem success_mapping_returns_witness:
  "map_response (\<lambda>v. False)
     (success_body \<lparr>v_isValid = False, v_estimatedTokens = Some 12,
        v_errors = Some [\<lparr>issue_message = ''bad layer'', issue_field = Some ''layers[0]''\<rparr>,
                         \<lparr>issue_message = ''no clips'', issue_field = None\<rparr>],
        v_detectedResources = None\<rparr>)
   = Inr \<lparr>content =
            [Lit ''Validation Result:\<newline>'', Lit ''- Valid: '', CrossMarkNo, Lit ''\<newline>'',
             Lit ''- Estimated Tokens: '', ToString (JNum 12), Lit ''\<newline>'',
             Lit ''\<newline>Errors:\<newline>'',
             Lit ''  '', ToString (JNum 1), Lit ''. '', Lit ''bad layer'',
             Lit '' (field: '', Lit ''layers[0]'', Lit '')'', Lit ''\<newline>'',
             Lit ''  '', ToString (JNum 2), Lit ''. '', Lit ''no clips'', Lit ''\<newline>''],
          isError = False\<rparr>"
  using success_mapping_returns
          [of "\<lambda>v. False"
              "\<lparr>v_isValid = False, v_estimatedTokens = Some 12,
                v_errors = Some [\<lparr>issue_message = ''bad layer'',
                                   issue_field = Some ''layers[0]''\<rparr>,
                                 \<lparr>issue_message = ''no clips'', issue_field = None\<rparr>],
                v_detectedResources = None\<rparr>"]
  by (simp add: map_response_def success_body_def encode_validation_def encode_issue_def
        optional_def list_section_def nonempty_def gt_zero_def and_then_def to_text_def
        interp_def)

text \<open>
  A payload outside the data model can make the mapping raise (here a \<open>null\<close> in the
  error list); the \<open>catch\<close> of the handler turns that into a failure result.
\<close>

lemma ill_typed_payload_raises:
  "map_response gt
     (JObj [(''success'', JBool True),
            (''data'', JObj [(''isValid'', JBool False), (''errors'', JArr [JNull])])])
   = Inl TypeError"
  by (simp add: map_response_def list_section_def nonempty_def gt_zero_def and_then_def)

lemma raised_mapping_is_caught:
  "validate_catch TypeError =
     Inr \<lparr>content = [Lit ''Validation Error: '', TypeErrorMessage], isError = True\<rparr>"
  by (rule validate_catch_TypeError)

section \<open>Errors at the dispatch boundary\<close>

lemma post_mcp_known:
  "mcp_session_id req = Some sid \<Longrightarrow> sid \<noteq> [] \<Longrightarrow> ss sid = Some key \<Longrightarrow>
   post_mcp ss req uuid = (ss, Handled sid key)"
  by (simp add: post_mcp_def present_def)

lemma dispatch_unknown:
  "name \<notin> tool_names \<Longrightarrow> dispatch env name args = ([], Inl (Error (''Unknown tool: '' @ name)))"
  by (simp add: dispatch_def tool_names_def)

lemma http_dispatch_unknown:
  "name \<notin> tool_names \<Longrightarrow>
   http_dispatch env key name args = ([], Inl (Error (''Unknown tool: '' @ name)))"
  by (simp add: http_dispatch_def tool_names_def)


text \<open>
  C7. In both variants the tool-call handler returns a tool result for every name and
  every argument value. An error raised while dispatching becomes the result
  \<open>Error: <message>\<close> flagged \<open>isError\<close>, in the place of the result a handler would have
  returned; a name that is not a tool raises \<open>Unknown tool: <name>\<close> and is
  reported so. A request for an existing session leaves the map of sessions as it was,
  whatever the operation it carries returns.
\<close>

theorem dispatch_errors_become_results:
  "fst (callTool env name args) = fst (dispatch env name args)
   \<and> (\<forall>e. snd (dispatch env name args) = Inl e \<longrightarrow>
         snd (callTool env name args) =
           \<lparr>content = Lit ''Error: '' # error_message e, isError = True\<rparr>)
   \<and> (\<forall>r. snd (dispatch env name args) = Inr r \<longrightarrow> snd (callTool env name args) = r)
   \<and> (name \<notin> tool_names \<longrightarrow>
         callTool env name args =
           ([], \<lparr>content = [Lit ''Error: '', Lit (''Unknown tool: '' @ name)], isError = True\<rparr>))
   \<and> fst (http_callTool env this_apiKey name args) = fst (http_dispatch env this_apiKey name args)
   \<and> (\<forall>e. snd (http_dispatch env this_apiKey name args) = Inl e \<longrightarrow>
         snd (http_callTool env this_apiKey name args) =
           \<lparr>content = Lit ''Error: '' # error_message e, isError = True\<rparr>)
   \<and> (\<forall>r. snd (http_dispatch env this_apiKey name args) = Inr r \<longrightarrow>
         snd (http_callTool env this_apiKey name args) = r)
   \<and> (name \<notin> tool_names \<longrightarrow>
         http_callTool env this_apiKey name args =
           ([], \<lparr>content = [Lit ''Error: '', Lit (''Unknown tool: '' @ name)], isError = True\<rparr>))
   \<and> (mcp_session_id req = Some sid \<and> sid \<noteq> [] \<and> ss sid = Some this_apiKey \<longrightarrow>
         post_mcp ss req uuid = (ss, Handled sid this_apiKey))"
proof (intro conjI allI impI)
  show "fst (callTool env name args) = fst (dispatch env name args)"
    by (cases "dispatch env name args") (simp add: callTool_def split: sum.splits)
  show "snd (callTool env name args) = \<lparr>content = Lit ''Error: '' # error_message e, isError = True\<rparr>"
    if "snd (dispatch env name args) = Inl e" for e
    using that by (cases "dispatch env name args") (simp add: callTool_def error_result_def)
  show "snd (callTool env name args) = r" if "snd (dispatch env name args) = Inr r" for r
    using that by (cases "dispatch env name args") (simp add: callTool_def)
  show "callTool env name args =
           ([], \<lparr>content = [Lit ''Error: '', Lit (''Unknown tool: '' @ name)], isError = True\<rparr>)"
    if "name \<notin> tool_names"
    by (simp add: callTool_def dispatch_unknown[OF that] error_result_def)
  show "fst (http_callTool env this_apiKey name args) = fst (http_dispatch env this_apiKey name args)"
    by (cases "http_dispatch env this_apiKey name args") (simp add: http_callTool_def split: sum.splits)
  show "snd (http_callTool env this_apiKey name args) =
           \<lparr>content = Lit ''Error: '' # error_message e, isError = True\<rparr>"
    if "snd (http_dispatch env this_apiKey name args) = Inl e" for e
    using that by (cases "http_dispatch env this_apiKey name args") (simp add: http_callTool_def error_result_def)
  show "snd (http_callTool env this_apiKey name args) = r"
    if "snd (http_dispatch env this_apiKey name args) = Inr r" for r
    using that by (cases "http_dispatch env this_apiKey name args") (simp add: http_callTool_def)
  show "http_callTool env this_apiKey name args =
           ([], \<lparr>content = [Lit ''Error: '', Lit (''Unknown tool: '' @ name)], isError = True\<rparr>)"
    if "name \<notin> tool_names"
    by (simp add: http_callTool_def http_dispatch_unknown[OF that] error_result_def)
  show "post_mcp ss req uuid = (ss, Handled sid this_apiKey)"
    if "mcp_session_id req = Some sid \<and> sid \<noteq> [] \<and> ss sid = Some this_apiKey"
    using that by (simp add: post_mcp_known)
qed


theorem dispatch_errors_become_results_witness:
  "callTool (example_env None) ''render'' (JObj [])
     = ([], \<lparr>content = [Lit ''Error: '', Lit ''Unknown tool: render''], isError = True\<rparr>)
   \<and> callTool (example_env None) ''create_image_config'' JUndefined
     = ([], \<lparr>content = [Lit ''Error: '', TypeErrorMessage], isError = True\<rparr>)
   \<and> http_callTool (example_env None) ''k'' ''render'' (JObj [])
     = ([], \<lparr>content = [Lit ''Error: '', Lit ''Unknown tool: render''], isError = True\<rparr>)
   \<and> post_mcp [''s1'' \<mapsto> ''k'']
        \<lparr>mcp_session_id = Some ''s1'', x_api_key = None,
         body = JObj [(''method'', JStr ''tools/call'')]\<rparr> ''u''
     = ([''s1'' \<mapsto> ''k''], Handled ''s1'' ''k'')"
  using dispatch_errors_become_results
          [of "example_env None" "''render''" "JObj []" "''k''"
              "\<lparr>mcp_session_id = Some ''s1'', x_api_key = None,
                body = JObj [(''method'', JStr ''tools/call'')]\<rparr>" "''s1''"
              "[''s1'' \<mapsto> ''k'']" "''u''"]
        dispatch_errors_become_results
          [of "example_env None" "''create_image_config''" JUndefined "''k''"
              "\<lparr>mcp_session_id = Some ''s1'', x_api_key = None,
                body = JObj [(''method'', JStr ''tools/call'')]\<rparr>" "''s1''"
              "[''s1'' \<mapsto> ''k'']" "''u''"]
  by (simp add: tool_names_def dispatch_def http_dispatch_def handleCreateImageConfig_def
        image_config_def and_then_def prod_eq_iff)

section \<open>Sessions\<close>

lemma step_untouched:
  assumes "\<not> touches sid e"
  shows "fst (step ss e) sid = ss sid"
proof (cases e)
  case (POST req uuid)
  with assms show ?thesis by (simp add: post_mcp_def)
next
  case (GET req)
  then show ?thesis by (simp add: get_mcp_def)
next
  case (DELETE req)
  with assms show ?thesis
    by (cases "mcp_session_id req") (simp_all add: delete_mcp_def present_def)
next
  case (CLOSE sid')
  with assms show ?thesis by simp
qed

lemma run_untouched:
  "\<forall>e \<in> set es. \<not> touches sid e \<Longrightarrow> run ss es sid = ss sid"
  by (induction es arbitrary: ss) (simp_all add: step_untouched)

lemma get_mcp_known:
  "mcp_session_id req = Some sid \<Longrightarrow> sid \<noteq> [] \<Longrightarrow> ss sid = Some key \<Longrightarrow>
   get_mcp ss req = (ss, Handled sid key)"
  by (simp add: get_mcp_def present_def)

lemma http_validate_sent_key:
  assumes "r \<in> set (fst (http_handleValidateConfig env key args))"
  shows "req_key r = or_else (js_get args ''apiKey'') (JStr key)"
proof (cases "nullish args")
  case True
  with assms show ?thesis
    by (simp add: http_handleValidateConfig_def http_validate_try_def)
next
  case nn: False
  show ?thesis
  proof (cases "truthy (or_else (js_get args ''apiKey'') (JStr key))")
    case False
    with assms nn show ?thesis
      by (simp add: http_handleValidateConfig_def http_validate_try_def http_getApiKey_def)
  next
    case True
    with assms nn show ?thesis
      by (cases "post env \<lparr>req_type = js_get args ''type'', req_config = js_get args ''config'',
                 req_key = or_else (js_get args ''apiKey'') (JStr key)\<rparr>")
         (simp_all add: http_handleValidateConfig_def http_validate_try_def http_getApiKey_def)
  qed
qed

text \<open>
  C4, as amended. A session-creating request with credential \<open>c\<close> stores the session with
  a server holding \<open>c\<close>. As long as the session is neither ended nor overwritten, every
  later request bearing its identifier is handed to that server, whatever credential
  header and body the request carries. A validation that server carries out sends the
  \<open>apiKey\<close> argument of the operation when that argument is truthy, and \<open>c\<close> otherwise.
\<close>

theorem session_credential:
  "(\<not> (present (mcp_session_id req0) \<and> ss0 (the (mcp_session_id req0)) \<noteq> None)
      \<and> isInitializeRequest (body req0) \<and> x_api_key req0 = Some c \<and> c \<noteq> [] \<longrightarrow>
      post_mcp ss0 req0 sid = (ss0(sid \<mapsto> c), Handled sid c))
   \<and> (ss sid = Some c \<and> sid \<noteq> [] \<and> (\<forall>e \<in> set es. \<not> touches sid e)
        \<and> mcp_session_id req = Some sid \<longrightarrow>
      post_mcp (run ss es) req uuid = (run ss es, Handled sid c)
      \<and> get_mcp (run ss es) req = (run ss es, Handled sid c))
   \<and> (\<forall>r \<in> set (fst (http_handleValidateConfig env c args)).
        req_key r = (if truthy (js_get args ''apiKey'') then js_get args ''apiKey'' else JStr c))"
proof (intro conjI impI ballI)
  assume "\<not> (present (mcp_session_id req0) \<and> ss0 (the (mcp_session_id req0)) \<noteq> None)
      \<and> isInitializeRequest (body req0) \<and> x_api_key req0 = Some c \<and> c \<noteq> []"
  then show "post_mcp ss0 req0 sid = (ss0(sid \<mapsto> c), Handled sid c)"
    by (auto simp: post_mcp_def present_def)
next
  assume a: "ss sid = Some c \<and> sid \<noteq> [] \<and> (\<forall>e \<in> set es. \<not> touches sid e)
        \<and> mcp_session_id req = Some sid"
  then have k: "run ss es sid = Some c"
    by (simp add: run_untouched)
  from a k show "post_mcp (run ss es) req uuid = (run ss es, Handled sid c)"
    by (simp add: post_mcp_def present_def)
  from a k show "get_mcp (run ss es) req = (run ss es, Handled sid c)"
    by (simp add: get_mcp_known)
next
  fix r assume "r \<in> set (fst (http_handleValidateConfig env c args))"
  then show "req_key r = (if truthy (js_get args ''apiKey'') then js_get args ''apiKey'' else JStr c)"
    by (simp add: http_validate_sent_key or_else_def)
qed

theorem session_credential_witness:
  "post_mcp Map.empty
     \<lparr>mcp_session_id = None, x_api_key = Some ''C'',
      body = JObj [(''method'', JStr ''initialize'')]\<rparr> ''s1''
     = ([''s1'' \<mapsto> ''C''], Handled ''s1'' ''C'')
   \<and> snd (post_mcp
        (run [''s1'' \<mapsto> ''C'']
           [GET \<lparr>mcp_session_id = Some ''s1'', x_api_key = Some ''D'', body = JUndefined\<rparr>,
            POST \<lparr>mcp_session_id = None, x_api_key = Some ''E'',
                  body = JObj [(''method'', JStr ''initialize'')]\<rparr> ''s2''])
        \<lparr>mcp_session_id = Some ''s1'', x_api_key = Some ''D'',
         body = JObj [(''method'', JStr ''tools/call'')]\<rparr> ''s3'')
     = Handled ''s1'' ''C''
   \<and> fst (http_handleValidateConfig (example_env None) ''C''
            (JObj [(''type'', JStr ''image''), (''config'', JObj [])]))
     = [\<lparr>req_type = JStr ''image'', req_config = JObj [], req_key = JStr ''C''\<rparr>]"
  using session_credential
          [of "\<lparr>mcp_session_id = None, x_api_key = Some ''C'',
                body = JObj [(''method'', JStr ''initialize'')]\<rparr>" Map.empty "''C''" "''s1''"
              "[''s1'' \<mapsto> ''C'']"
              "[GET \<lparr>mcp_session_id = Some ''s1'', x_api_key = Some ''D'', body = JUndefined\<rparr>,
                POST \<lparr>mcp_session_id = None, x_api_key = Some ''E'',
                      body = JObj [(''method'', JStr ''initialize'')]\<rparr> ''s2'']"
              "\<lparr>mcp_session_id = Some ''s1'', x_api_key = Some ''D'',
                body = JObj [(''method'', JStr ''tools/call'')]\<rparr>" "''s3''"
              "example_env None" "JObj [(''type'', JStr ''image''), (''config'', JObj [])]"]
  by (simp add: present_def isInitializeRequest_def http_handleValidateConfig_def
        http_validate_try_def http_getApiKey_def or_else_def example_env_def)

text \<open>
  C4 as stated fails for a credential given as an operation argument: in a session
  created with \<open>C\<close>, a validation called with \<open>apiKey\<close> \<open>D\<close> is sent with \<open>D\<close>.
\<close>

theorem apiKey_argument_overrides_session_credential:
  "fst (http_handleValidateConfig (example_env None) ''C''
          (JObj [(''type'', JStr ''image''), (''config'', JObj []), (''apiKey'', JStr ''D'')]))
     = [\<lparr>req_type = JStr ''image'', req_config = JObj [], req_key = JStr ''D''\<rparr>]"
  by (simp add: http_handleValidateConfig_def http_validate_try_def http_getApiKey_def
        or_else_def example_env_def)

text \<open>
  C5, as amended. A request bearing an identifier that is not in the map of sessions
  leaves the map as it is and is rejected as an invalid session (status 400) when it is
  a GET, a DELETE, or a POST whose body is not an initialize request. A POST with such
  an identifier whose body is an initialize request is an attempt to create a session:
  without a credential it is rejected with status 401 and the map is unchanged, with a
  credential a session is stored under a fresh identifier. An identifier is unknown
  again once its session was deleted or its transport closed.
\<close>

theorem unknown_session_identifier:
  "(mcp_session_id req = Some sid \<and> ss sid = None \<longrightarrow>
      get_mcp ss req = (ss, PlainError 400 ''Invalid or missing session ID'')
      \<and> delete_mcp ss req = (ss, PlainError 400 ''Invalid or missing session ID'')
      \<and> (\<not> isInitializeRequest (body req) \<longrightarrow>
            post_mcp ss req uuid = (ss, JsonRpcError 400 (- 32000) no_valid_session))
      \<and> (isInitializeRequest (body req) \<and> \<not> present (x_api_key req) \<longrightarrow>
            post_mcp ss req uuid = (ss, JsonRpcError 401 (- 32000) ''Missing X-API-Key header''))
      \<and> (isInitializeRequest (body req) \<and> present (x_api_key req) \<longrightarrow>
            post_mcp ss req uuid
              = (ss(uuid \<mapsto> the (x_api_key req)), Handled uuid (the (x_api_key req)))))
   \<and> (mcp_session_id req = Some sid \<and> sid \<noteq> [] \<longrightarrow> fst (delete_mcp ss req) sid = None)
   \<and> fst (step ss (CLOSE sid)) sid = None"
  by (simp add: get_mcp_def delete_mcp_def post_mcp_def present_def)

theorem unknown_session_identifier_witness:
  "post_mcp [''s1'' \<mapsto> ''k'']
     \<lparr>mcp_session_id = Some ''s9'', x_api_key = Some ''k'',
      body = JObj [(''method'', JStr ''tools/call'')]\<rparr> ''u''
     = ([''s1'' \<mapsto> ''k''], JsonRpcError 400 (- 32000) no_valid_session)
   \<and> get_mcp [''s1'' \<mapsto> ''k'']
        \<lparr>mcp_session_id = Some ''s9'', x_api_key = Some ''k'', body = JUndefined\<rparr>
     = ([''s1'' \<mapsto> ''k''], PlainError 400 ''Invalid or missing session ID'')
   \<and> fst (delete_mcp [''s1'' \<mapsto> ''k'']
        \<lparr>mcp_session_id = Some ''s1'', x_api_key = None, body = JUndefined\<rparr>) ''s1'' = None
   \<and> post_mcp [''s1'' \<mapsto> ''k'']
        \<lparr>mcp_session_id = Some ''s9'', x_api_key = None,
         body = JObj [(''method'', JStr ''initialize'')]\<rparr> ''u''
     = ([''s1'' \<mapsto> ''k''], JsonRpcError 401 (- 32000) ''Missing X-API-Key header'')"
  using unknown_session_identifier
          [of "\<lparr>mcp_session_id = Some ''s9'', x_api_key = None,
                body = JObj [(''method'', JStr ''initialize'')]\<rparr>" "''s9''"
              "[''s1'' \<mapsto> ''k'']" "''u''"]
        unknown_session_identifier
          [of "\<lparr>mcp_session_id = Some ''s9'', x_api_key = Some ''k'',
                body = JObj [(''method'', JStr ''tools/call'')]\<rparr>" "''s9''"
              "[''s1'' \<mapsto> ''k'']" "''u''"]
        unknown_session_identifier
          [of "\<lparr>mcp_session_id = Some ''s9'', x_api_key = Some ''k'', body = JUndefined\<rparr>"
              "''s9''" "[''s1'' \<mapsto> ''k'']" "''u''"]
        unknown_session_identifier
          [of "\<lparr>mcp_session_id = Some ''s1'', x_api_key = None, body = JUndefined\<rparr>"
              "''s1''" "[''s1'' \<mapsto> ''k'']" "''u''"]
  by (simp add: isInitializeRequest_def present_def)

text \<open>
  C5 as stated fails for an initialize request: sent with an identifier that was never
  issued, and a credential, it creates a session.
\<close>

theorem initialize_with_unknown_identifier_creates_session:
  "post_mcp Map.empty
     \<lparr>mcp_session_id = Some ''stale'', x_api_key = Some ''k'',
      body = JObj [(''method'', JStr ''initialize'')]\<rparr> ''u1''
     = ([''u1'' \<mapsto> ''k''], Handled ''u1'' ''k'')"
  by (simp add: post_mcp_def present_def isInitializeRequest_def)

text \<open>
  C6, as amended. An initialize request that bears no known session identifier and no
  credential is rejected with status 401 (\<open>Missing X-API-Key header\<close>) and the map of
  sessions stays as it was. After it, a request bearing an identifier that is not in the
  map is rejected as an invalid session when it is a GET, a DELETE, or a POST whose body
  is not an initialize request.
\<close>

theorem initialize_without_credential:
  assumes "\<not> (present (mcp_session_id req) \<and> ss (the (mcp_session_id req)) \<noteq> None)"
    and "isInitializeRequest (body req)"
    and "\<not> present (x_api_key req)"
  shows "post_mcp ss req uuid = (ss, JsonRpcError 401 (- 32000) ''Missing X-API-Key header'')
       \<and> (mcp_session_id req' = Some sid' \<and> ss sid' = None \<longrightarrow>
            get_mcp (fst (post_mcp ss req uuid)) req'
              = (ss, PlainError 400 ''Invalid or missing session ID'')
            \<and> delete_mcp (fst (post_mcp ss req uuid)) req'
              = (ss, PlainError 400 ''Invalid or missing session ID'')
            \<and> (\<not> isInitializeRequest (body req') \<longrightarrow>
                 post_mcp (fst (post_mcp ss req uuid)) req' uuid'
                   = (ss, JsonRpcError 400 (- 32000) no_valid_session)))"
proof -
  have p: "post_mcp ss req uuid = (ss, JsonRpcError 401 (- 32000) ''Missing X-API-Key header'')"
    using assms by (simp add: post_mcp_def)
  show ?thesis
    unfolding p by (simp add: get_mcp_def delete_mcp_def post_mcp_def present_def)
qed

theorem initialize_without_credential_witness:
  "post_mcp Map.empty
     \<lparr>mcp_session_id = None, x_api_key = None,
      body = JObj [(''method'', JStr ''initialize'')]\<rparr> ''u1''
     = (Map.empty, JsonRpcError 401 (- 32000) ''Missing X-API-Key header'')
   \<and> post_mcp
        (fst (post_mcp Map.empty
               \<lparr>mcp_session_id = None, x_api_key = None,
                body = JObj [(''method'', JStr ''initialize'')]\<rparr> ''u1''))
        \<lparr>mcp_session_id = Some ''invented'', x_api_key = None,
         body = JObj [(''method'', JStr ''tools/list'')]\<rparr> ''u2''
     = (Map.empty, JsonRpcError 400 (- 32000) no_valid_session)"
  using initialize_without_credential
          [of "\<lparr>mcp_session_id = None, x_api_key = None,
                body = JObj [(''method'', JStr ''initialize'')]\<rparr>" Map.empty "''u1''"
              "\<lparr>mcp_session_id = Some ''invented'', x_api_key = None,
                body = JObj [(''method'', JStr ''tools/list'')]\<rparr>" "''invented''" "''u2''"]
  by (simp add: present_def isInitializeRequest_def post_mcp_def)

text \<open>
  C6 as stated fails when the later request is itself an initialize request with a
  credential: bearing an invented identifier, it creates a session.
\<close>

theorem invented_identifier_can_initialize:
  "post_mcp Map.empty
     \<lparr>mcp_session_id = None, x_api_key = None,
      body = JObj [(''method'', JStr ''initialize'')]\<rparr> ''u1''
     = (Map.empty, JsonRpcError 401 (- 32000) ''Missing X-API-Key header'')
   \<and> post_mcp
        (fst (post_mcp Map.empty
               \<lparr>mcp_session_id = None, x_api_key = None,
                body = JObj [(''method'', JStr ''initialize'')]\<rparr> ''u1''))
        \<lparr>mcp_session_id = Some ''invented'', x_api_key = Some ''k'',
         body = JObj [(''method'', JStr ''initialize'')]\<rparr> ''u2''
     = ([''u2'' \<mapsto> ''k''], Handled ''u2'' ''k'')"
  by (simp add: post_mcp_def present_def isInitializeRequest_def)

end
